theory Spec2Isabelle
  imports Complex_Main
begin

section \<open>The annotation page of audino: segments, selection and synchronisation\<close>

text \<open>
  The development embeds the class \<open>Annotate\<close> of
  \<^verbatim>\<open>src/frontend/src/pages/annotate.js\<close>. A handler of the component becomes a
  function from the component's state to the state it leaves, paired with what the
  handler did: the \<open>TypeError\<close> it threw, or the backend calls it issued. An axios
  call is asynchronous: the handler returns once the request is issued, and the
  \<open>.then\<close> or \<open>.catch\<close> callback runs later, on the state of that later moment.
  Each call therefore carries the closure that will settle it, and \<open>settle\<close> runs the
  callback.

  The regions of the waveform are objects shared between the waveform engine's list
  and the component's \<open>selectedSegment\<close>, and they are mutated in place. They live in
  an explicit store (\<open>heap\<close>), and the list and the selection hold references.
\<close>

subsection \<open>JavaScript values\<close>

text \<open>
  The values a \<open>segmentation_id\<close> takes: missing from the object, \<open>null\<close>, or a
  number. \<open>truthy\<close> is JavaScript's coercion to a boolean, used by
  \<open>if (selectedSegment.data.segmentation_id)\<close>.
\<close>

datatype jsval = Undefined | Null | Num int

fun truthy :: "jsval \<Rightarrow> bool" where
  "truthy Undefined = False"
| "truthy Null = False"
| "truthy (Num n) = (n \<noteq> 0)"

datatype js_error = TypeError

subsection \<open>Labels, annotations, regions\<close>

text \<open>
  An entry of \<open>state.labels\<close>: \<open>{label_id, type, values: [{value_id, value}]}\<close>.
  The page reads a \<open>value_id\<close> only through the template string that makes it an
  option's value, so a value is kept as that string and its display text.
\<close>

record label =
  lbl_label_id :: int
  lbl_type :: string
  lbl_values :: "(string \<times> string) list"

text \<open>
  The \<open>values\<close> field of an annotation is an array of option values for a
  \<open>multiselect\<close> label and a single string otherwise.
\<close>

datatype chosen = Single string | Multi "string list"

record annotation =
  ann_label_id :: int
  ann_values :: chosen

text \<open>
  The \<open>data\<close> object of a region. A field that is missing, \<open>undefined\<close> or
  \<open>null\<close> is \<open>None\<close> (for the identifier: \<open>Undefined\<close> or \<open>Null\<close>).
\<close>

record region_data =
  segmentation_id :: jsval
  transcription :: "string option"
  annotations :: "(string \<rightharpoonup> annotation) option"

text \<open>A row of the backend's \<open>segmentations\<close> list: the same three fields and the times.\<close>

record segmentation = region_data +
  start_time :: real
  end_time :: real

record region =
  start :: real
  end' :: real
  data :: region_data

text \<open>The parameters of \<open>wavesurfer.addRegion\<close>; \<open>data\<close> may be left out.\<close>

record region_params =
  prm_start :: real
  prm_end :: real
  prm_data :: "region_data option"

subsection \<open>Requests, closures, responses\<close>

text \<open>The body of a create or update request: \<open>{start, end, transcription, annotations}\<close>.\<close>

record payload =
  pl_start :: real
  pl_end :: real
  pl_transcription :: "string option"
  pl_annotations :: "(string \<rightharpoonup> annotation) option"

text \<open>
  \<open>Post\<close> goes to \<open>segmentationUrl\<close>, \<open>Put\<close> and \<open>Delete\<close> to
  \<open>segmentationUrl/<id>\<close> (the identifier is interpolated into the URL as it is),
  \<open>Patch\<close> to \<open>dataUrl\<close> with \<open>{is_marked_for_review}\<close>.
\<close>

datatype request =
    Post payload
  | Put jsval payload
  | Delete jsval
  | Patch bool

text \<open>
  The callbacks of a call, with the region reference they captured from
  \<open>this.state.selectedSegment\<close> when the handler ran.
\<close>

datatype closure =
    SaveCreate nat
  | SaveUpdate
  | SegmentDelete nat
  | MarkedForReview

type_synonym call = "request \<times> closure"

text \<open>
  What the callbacks read of \<open>response.data\<close>. The promise is rejected on an error
  status; a resolved response whose \<open>data\<close> is \<open>null\<close> is \<open>Resolved None\<close>.
\<close>

record response_data =
  res_segmentation_id :: jsval
  res_is_marked_for_review :: bool

datatype response = Resolved "response_data option" | Rejected

text \<open>The fields of \<open>e.target\<close> that the handlers read.\<close>

record change_event =
  target_value :: string
  target_selectedOptions :: "string list"
  target_checked :: bool

subsection \<open>The state\<close>

text \<open>
  The fields of \<open>this.state\<close> that the segment handlers read or write, and the
  waveform engine's part: the store of region objects, \<open>wavesurfer.regions.list\<close> as
  the references it holds in insertion order, the next unused reference, and
  \<open>wavesurfer.getDuration()\<close>.
\<close>

record state =
  labels :: "string \<rightharpoonup> label"
  isDataLoading :: bool
  isPlaying :: bool
  referenceTranscription :: "string option"
  isMarkedForReview :: bool
  selectedSegment :: "nat option"
  isSegmentDeleting :: bool
  isSegmentSaving :: bool
  errorMessage :: "string option"
  successMessage :: "string option"
  heap :: "nat \<Rightarrow> region"
  regions_list :: "nat list"
  fresh :: nat
  duration :: real

text \<open>
  The waveform engine (wavesurfer.js, an external library) is not part of the
  repository: the page only calls it. Its three operations on regions that the
  handlers use follow.
\<close>

text \<open>Modelled from the spec: the \<open>data\<close> of a region that was created without any
  is an empty object (section 4.1: no identifier, transcription or annotations).\<close>

definition empty_data :: region_data where
  "empty_data = \<lparr>segmentation_id = Undefined, transcription = None, annotations = None\<rparr>"

text \<open>Modelled from the spec: the engine's region object for the parameters of
  \<open>addRegion\<close>, with the given times and the given \<open>data\<close>, if any.\<close>

definition region_of :: "region_params \<Rightarrow> region" where
  "region_of p =
     \<lparr>start = prm_start p, end' = prm_end p,
      data = (case prm_data p of None \<Rightarrow> empty_data | Some d \<Rightarrow> d)\<rparr>"

text \<open>Modelled from the spec: the engine's \<open>addRegion\<close> creates the region object
  under an identifier of its own and appends it to \<open>regions.list\<close>; a region that
  the user draws is added the same way, with no \<open>data\<close>.\<close>

definition addRegion :: "region_params \<Rightarrow> state \<Rightarrow> state" where
  "addRegion p st =
     st\<lparr>heap := (heap st)(fresh st := region_of p),
        regions_list := regions_list st @ [fresh st],
        fresh := Suc (fresh st)\<rparr>"

text \<open>Modelled from the spec: the engine's \<open>region.remove()\<close> takes the region off
  \<open>regions.list\<close>; the object itself stays reachable from whoever holds it.\<close>

definition remove :: "nat \<Rightarrow> state \<Rightarrow> state" where
  "remove r st = st\<lparr>regions_list := removeAll r (regions_list st)\<rparr>"

text \<open>An assignment to a field of \<open>selectedSegment.data\<close>: the object changes in the store.\<close>

definition set_data :: "nat \<Rightarrow> (region_data \<Rightarrow> region_data) \<Rightarrow> state \<Rightarrow> state" where
  "set_data r f st = st\<lparr>heap := (heap st)(r := (heap st r)\<lparr>data := f (data (heap st r))\<rparr>)\<rparr>"

subsection \<open>Loading\<close>

text \<open>
  \<open>componentDidMount\<close>, the callback of \<open>axios.all([labels, data])\<close> (lines 169-209):
  it stores the labels and the item's fields, maps every segmentation to region
  parameters and hands them to \<open>loadRegions\<close>. (The request for the page of the
  project's data, lines 84-112, touches neither a region nor the selection and is
  left out.) \<open>loadRegions\<close> reads \<open>state.wavesurfer\<close>, which the callback has set
  one line before: a \<open>setState\<close> in a promise callback takes effect at once, and from
  then on \<open>state.wavesurfer\<close> is the engine that \<open>componentDidMount\<close> created. The
  state of the model holds the engine's part from the start.
\<close>

record data_response =
  reference_transcription :: "string option"
  is_marked_for_review :: bool
  segmentations :: "segmentation list"

definition to_region :: "segmentation \<Rightarrow> region_params" where
  "to_region s =
     \<lparr>prm_start = start_time s, prm_end = end_time s,
      prm_data = Some \<lparr>segmentation_id = segmentation_id s,
                       transcription = transcription s,
                       annotations = annotations s\<rparr>\<rparr>"

fun loadRegions :: "region_params list \<Rightarrow> state \<Rightarrow> state" where
  "loadRegions [] st = st"
| "loadRegions (region # regions) st = loadRegions regions (addRegion region st)"

definition componentDidMount_then :: "(string \<rightharpoonup> label) \<Rightarrow> data_response \<Rightarrow> state \<Rightarrow> state" where
  "componentDidMount_then ls d st =
     (let st1 = st\<lparr>isDataLoading := False, labels := ls\<rparr>;
          regions = map to_region (segmentations d);
          st2 = st1\<lparr>isDataLoading := False,
                    referenceTranscription := reference_transcription d,
                    isMarkedForReview := is_marked_for_review d\<rparr>
      in loadRegions regions st2)"

definition componentDidMount_catch :: "state \<Rightarrow> state" where
  "componentDidMount_catch st = st\<lparr>isDataLoading := False\<rparr>"

text \<open>
  The handler of the engine's \<open>ready\<close> event (lines 129-141), which fires once the
  audio that the callback above asked for is loaded: with no region on the list it
  adds one over the whole audio and selects the first region of the list.
\<close>

definition ready :: "state \<Rightarrow> state" where
  "ready st =
     (if regions_list st = [] then
        (let st1 = addRegion \<lparr>prm_start = 0, prm_end = duration st, prm_data = None\<rparr> st
         in st1\<lparr>selectedSegment :=
                  (case regions_list st1 of [] \<Rightarrow> None | firstRegionKey # _ \<Rightarrow> Some firstRegionKey)\<rparr>)
      else st)"

text \<open>The handler of \<open>region-click\<close> (lines 155-162).\<close>

definition region_click :: "nat \<Rightarrow> state \<Rightarrow> state" where
  "region_click r st = st\<lparr>isPlaying := True, selectedSegment := Some r\<rparr>"

subsection \<open>The handlers\<close>

text \<open>
  A handler returns the state it leaves and either the error it threw or the calls it
  issued. Reading a property of \<open>selectedSegment\<close> when it is \<open>null\<close> throws a
  \<open>TypeError\<close>, as does reading one of \<open>labels[key]\<close> or of
  \<open>wavesurfer.regions.list[id]\<close> when that is \<open>undefined\<close>.
\<close>

type_synonym outcome = "state \<times> (js_error + call list)"

definition handleIsMarkedForReview :: "change_event \<Rightarrow> state \<Rightarrow> outcome" where
  "handleIsMarkedForReview e st =
     (let isMarkedForReview = target_checked e
      in (st\<lparr>isDataLoading := True\<rparr>, Inr [(Patch isMarkedForReview, MarkedForReview)]))"

definition handleIsMarkedForReview_catch :: "state \<Rightarrow> state" where
  "handleIsMarkedForReview_catch st =
     st\<lparr>isDataLoading := False,
        errorMessage := Some ''Error changing review status'',
        successMessage := None\<rparr>"

definition handleIsMarkedForReview_then :: "response_data option \<Rightarrow> state \<Rightarrow> state" where
  "handleIsMarkedForReview_then d st =
     (case d of
        None \<Rightarrow> handleIsMarkedForReview_catch st
      | Some dat \<Rightarrow>
          st\<lparr>isDataLoading := False,
             isMarkedForReview := res_is_marked_for_review dat,
             errorMessage := None,
             successMessage := Some ''Marked for review status changed''\<rparr>)"

definition handleSegmentDelete :: "state \<Rightarrow> outcome" where
  "handleSegmentDelete st =
     (let st1 = st\<lparr>isSegmentDeleting := True\<rparr>
      in case selectedSegment st of
           None \<Rightarrow> (st1, Inl TypeError)
         | Some r \<Rightarrow>
             if truthy (segmentation_id (data (heap st r))) then
               (st1, Inr [(Delete (segmentation_id (data (heap st r))), SegmentDelete r)])
             else if r \<in> set (regions_list st) then
               ((remove r st1)\<lparr>selectedSegment := None, isSegmentDeleting := False\<rparr>, Inr [])
             else (st1, Inl TypeError))"

definition handleSegmentDelete_catch :: "state \<Rightarrow> state" where
  "handleSegmentDelete_catch st = st\<lparr>isSegmentDeleting := False\<rparr>"

definition handleSegmentDelete_then :: "nat \<Rightarrow> state \<Rightarrow> state" where
  "handleSegmentDelete_then r st =
     (if r \<in> set (regions_list st) then
        (remove r st)\<lparr>selectedSegment := None, isSegmentDeleting := False\<rparr>
      else handleSegmentDelete_catch st)"

definition handleSegmentSave :: "state \<Rightarrow> outcome" where
  "handleSegmentSave st =
     (case selectedSegment st of
        None \<Rightarrow> (st, Inl TypeError)
      | Some r \<Rightarrow>
          (let selected = heap st r;
               body = \<lparr>pl_start = start selected, pl_end = end' selected,
                       pl_transcription = transcription (data selected),
                       pl_annotations = annotations (data selected)\<rparr>;
               seg_id = (case segmentation_id (data selected) of
                           Undefined \<Rightarrow> Null | v \<Rightarrow> v);
               st1 = st\<lparr>isSegmentSaving := True\<rparr>
           in if seg_id = Null then (st1, Inr [(Post body, SaveCreate r)])
              else (st1, Inr [(Put seg_id body, SaveUpdate)])))"

definition handleSegmentSave_catch :: "state \<Rightarrow> state" where
  "handleSegmentSave_catch st =
     st\<lparr>isSegmentSaving := False,
        errorMessage := Some ''Error saving segment'',
        successMessage := None\<rparr>"

definition handleSegmentSave_create_then :: "nat \<Rightarrow> response_data option \<Rightarrow> state \<Rightarrow> state" where
  "handleSegmentSave_create_then r d st =
     (case d of
        None \<Rightarrow> handleSegmentSave_catch st
      | Some dat \<Rightarrow>
          (set_data r (\<lambda>x. x\<lparr>segmentation_id := res_segmentation_id dat\<rparr>) st)
            \<lparr>isSegmentSaving := False,
             selectedSegment := Some r,
             successMessage := Some ''Segment saved'',
             errorMessage := None\<rparr>)"

definition handleSegmentSave_update_then :: "state \<Rightarrow> state" where
  "handleSegmentSave_update_then st =
     st\<lparr>isSegmentSaving := False,
        successMessage := Some ''Segment saved'',
        errorMessage := None\<rparr>"

definition handleTranscriptionChange :: "change_event \<Rightarrow> state \<Rightarrow> outcome" where
  "handleTranscriptionChange e st =
     (case selectedSegment st of
        None \<Rightarrow> (st, Inl TypeError)
      | Some r \<Rightarrow>
          ((set_data r (\<lambda>x. x\<lparr>transcription := Some (target_value e)\<rparr>) st)
             \<lparr>selectedSegment := Some r\<rparr>, Inr []))"

definition handleLabelChange :: "string \<Rightarrow> change_event \<Rightarrow> state \<Rightarrow> outcome" where
  "handleLabelChange key e st =
     (case selectedSegment st of
        None \<Rightarrow> (st, Inl TypeError)
      | Some r \<Rightarrow>
          (let anns = (case annotations (data (heap st r)) of None \<Rightarrow> Map.empty | Some a \<Rightarrow> a);
               st1 = set_data r (\<lambda>x. x\<lparr>annotations := Some anns\<rparr>) st
           in case labels st key of
                None \<Rightarrow> (st1, Inl TypeError)
              | Some l \<Rightarrow>
                  (let entry =
                         (if lbl_type l = ''multiselect'' then
                            \<lparr>ann_label_id = lbl_label_id l,
                             ann_values = Multi (target_selectedOptions e)\<rparr>
                          else
                            \<lparr>ann_label_id = lbl_label_id l,
                             ann_values = Single (target_value e)\<rparr>)
                   in ((set_data r (\<lambda>x. x\<lparr>annotations := Some (anns(key \<mapsto> entry))\<rparr>) st1)
                         \<lparr>selectedSegment := Some r\<rparr>, Inr []))))"

definition handleAlertDismiss :: "state \<Rightarrow> state" where
  "handleAlertDismiss st = st\<lparr>successMessage := Some [], errorMessage := Some []\<rparr>"

text \<open>
  The callbacks of a call: \<open>.then\<close> on a resolved promise, \<open>.catch\<close> on a rejected
  one, and also \<open>.catch\<close> when \<open>.then\<close> throws (each \<open>_then\<close> above falls back to
  its \<open>_catch\<close> there).
\<close>

fun settle :: "closure \<Rightarrow> response \<Rightarrow> state \<Rightarrow> state" where
  "settle (SaveCreate r) (Resolved d) st = handleSegmentSave_create_then r d st"
| "settle (SaveCreate r) Rejected st = handleSegmentSave_catch st"
| "settle SaveUpdate (Resolved d) st = handleSegmentSave_update_then st"
| "settle SaveUpdate Rejected st = handleSegmentSave_catch st"
| "settle (SegmentDelete r) (Resolved d) st = handleSegmentDelete_then r st"
| "settle (SegmentDelete r) Rejected st = handleSegmentDelete_catch st"
| "settle MarkedForReview (Resolved d) st = handleIsMarkedForReview_then d st"
| "settle MarkedForReview Rejected st = handleIsMarkedForReview_catch st"

subsection \<open>What \<open>render\<close> shows\<close>

text \<open>
  The controls are rendered only while \<open>isDataLoading\<close> is false (line 463), the
  transcription box, the label selects and the Delete and Save buttons only while
  \<open>selectedSegment\<close> is set as well (line 542). The review checkbox is a controlled
  input: it shows \<open>checked={isMarkedForReview}\<close> of the state (line 667).
\<close>

definition render_edit_controls :: "state \<Rightarrow> bool" where
  "render_edit_controls st = (\<not> isDataLoading st \<and> selectedSegment st \<noteq> None)"

definition render_isMarkedForReview :: "state \<Rightarrow> bool option" where
  "render_isMarkedForReview st = (if \<not> isDataLoading st then Some (isMarkedForReview st) else None)"

text \<open>The alert with the error is rendered while \<open>errorMessage\<close> is truthy (lines 443-449).\<close>

definition render_error_alert :: "state \<Rightarrow> string option" where
  "render_error_alert st =
     (case errorMessage st of None \<Rightarrow> None | Some m \<Rightarrow> if m = [] then None else Some m)"

text \<open>
  The select of a label (lines 564-608). For a label with no values \<open>render\<close> returns
  \<open>null\<close>: no select (lines 565-567). Otherwise the option values of the select are
  the placeholder \<open>"-1"\<close> for a label that is not \<open>multiselect\<close>, then the label's
  value identifiers (lines 592-604).
\<close>

definition render_options :: "label \<Rightarrow> string list option" where
  "render_options l =
     (if lbl_values l = [] then None
      else Some ((if lbl_type l \<noteq> ''multiselect'' then [''-1''] else [])
                 @ map fst (lbl_values l)))"

subsection \<open>The first state and the events of a session\<close>

text \<open>
  The state the constructor sets (lines 36-71; \<open>isSegmentSaving\<close> is not set there
  and reads as false), with the engine that \<open>WaveSurfer.create\<close> returns: no region
  yet. The audio's duration is a parameter.
\<close>

definition init :: "real \<Rightarrow> state" where
  "init dur =
     \<lparr>labels = Map.empty, isDataLoading = False, isPlaying = False,
      referenceTranscription = None, isMarkedForReview = False,
      selectedSegment = None, isSegmentDeleting = False, isSegmentSaving = False,
      errorMessage = None, successMessage = None,
      heap = (\<lambda>_. \<lparr>start = 0, end' = 0, data = empty_data\<rparr>),
      regions_list = [], fresh = 0, duration = dur\<rparr>"

text \<open>
  What can happen to the mounted component: the engine's events, the user's actions on
  the controls, and the arrival of a response for a call. \<open>react\<close> runs the handler
  and keeps the state it leaves (also when the handler threw).
\<close>

datatype event =
    Loaded "string \<rightharpoonup> label" data_response
  | LoadFailed
  | Ready
  | RegionDrawn real real
  | RegionClick nat
  | TranscriptionChange change_event
  | LabelChange string change_event
  | SaveClick
  | DeleteClick
  | ReviewChange change_event
  | AlertDismiss
  | Settled closure response

fun react :: "event \<Rightarrow> state \<Rightarrow> state" where
  "react (Loaded ls d) st = componentDidMount_then ls d st"
| "react LoadFailed st = componentDidMount_catch st"
| "react Ready st = ready st"
| "react (RegionDrawn s e) st = addRegion \<lparr>prm_start = s, prm_end = e, prm_data = None\<rparr> st"
| "react (RegionClick r) st = region_click r st"
| "react (TranscriptionChange e) st = fst (handleTranscriptionChange e st)"
| "react (LabelChange key e) st = fst (handleLabelChange key e st)"
| "react SaveClick st = fst (handleSegmentSave st)"
| "react DeleteClick st = fst (handleSegmentDelete st)"
| "react (ReviewChange e) st = fst (handleIsMarkedForReview e st)"
| "react AlertDismiss st = handleAlertDismiss st"
| "react (Settled k resp) st = settle k resp st"

definition run :: "event list \<Rightarrow> state \<Rightarrow> state" where
  "run evs st = fold react evs st"

text \<open>The event that assigns an identifier: a resolved create for the region \<open>r\<close>.\<close>

fun create_resolved :: "nat \<Rightarrow> event \<Rightarrow> bool" where
  "create_resolved r (Settled (SaveCreate r') (Resolved (Some d))) = (r' = r)"
| "create_resolved r _ = False"

text \<open>
  What \<open>render\<close> reads of a region for the select of the label \<open>key\<close> (lines
  581-586): the entry of \<open>data.annotations\<close>, if there is one.
\<close>

definition annotation_of :: "state \<Rightarrow> nat \<Rightarrow> string \<Rightarrow> annotation option" where
  "annotation_of st r key =
     (case annotations (data (heap st r)) of None \<Rightarrow> None | Some anns \<Rightarrow> anns key)"

subsection \<open>A session to evaluate\<close>

text \<open>
  An audio of ten seconds with two labels. \<open>synced7\<close> is the state after loading one
  segmentation with the identifier 7 and clicking its region; \<open>unsynced\<close> is the
  state after loading an item with no segmentation, where \<open>ready\<close> has added and
  selected the region of the whole audio.
\<close>

definition labels0 :: "string \<rightharpoonup> label" where
  "labels0 =
     [''mood'' \<mapsto> \<lparr>lbl_label_id = 1, lbl_type = ''select'',
                       lbl_values = [(''3'', ''calm''), (''4'', ''tense'')]\<rparr>,
      ''tags'' \<mapsto> \<lparr>lbl_label_id = 2, lbl_type = ''multiselect'',
                       lbl_values = [(''2'', ''noise''), (''5'', ''music'')]\<rparr>]"

definition seg7 :: segmentation where
  "seg7 = \<lparr>segmentation_id = Num 7, transcription = Some ''hello'', annotations = None,
            start_time = 1, end_time = 2\<rparr>"

definition synced7 :: state where
  "synced7 =
     run [Loaded labels0 \<lparr>reference_transcription = None, is_marked_for_review = False,
                           segmentations = [seg7]\<rparr>,
          Ready, RegionClick 0] (init 10)"

definition unsynced :: state where
  "unsynced =
     run [Loaded labels0 \<lparr>reference_transcription = None, is_marked_for_review = False,
                           segmentations = []\<rparr>,
          Ready] (init 10)"

definition chose :: "string \<Rightarrow> string list \<Rightarrow> change_event" where
  "chose v vs = \<lparr>target_value = v, target_selectedOptions = vs, target_checked = False\<rparr>"

definition ticked :: "bool \<Rightarrow> change_event" where
  "ticked b = \<lparr>target_value = ''true'', target_selectedOptions = [], target_checked = b\<rparr>"

text \<open>
  After drawing a second region the user clicks it, types, saves, and sees the save
  rejected.
\<close>

definition draw_and_retry :: "event list" where
  "draw_and_retry =
     [RegionClick 1, TranscriptionChange (chose ''hi'' []), SaveClick,
      Settled (SaveCreate 1) Rejected]"

section \<open>Properties\<close>

subsection \<open>Evaluating the session\<close>

lemmas session_defs = run_def init_def componentDidMount_then_def componentDidMount_catch_def
  ready_def region_click_def to_region_def empty_data_def region_of_def

lemma synced7_fields:
  "selectedSegment synced7 = Some 0"
  "regions_list synced7 = [0]"
  "heap synced7 0 =
     \<lparr>start = 1, end' = 2,
      data = \<lparr>segmentation_id = Num 7, transcription = Some ''hello'', annotations = None\<rparr>\<rparr>"
  "labels synced7 = labels0"
  "isMarkedForReview synced7 = False"
  by (simp_all add: synced7_def seg7_def session_defs addRegion_def)

lemma unsynced_fields:
  "selectedSegment unsynced = Some 0"
  "regions_list unsynced = [0]"
  "fresh unsynced = 1"
  "heap unsynced 0 =
     \<lparr>start = 0, end' = 10,
      data = \<lparr>segmentation_id = Undefined, transcription = None, annotations = None\<rparr>\<rparr>"
  "labels unsynced = labels0"
  by (simp_all add: unsynced_def session_defs addRegion_def)

subsection \<open>Loading adds one region per segmentation\<close>

lemma fresh_loadRegions: "fresh (loadRegions ps st) = fresh st + length ps"
  by (induction ps arbitrary: st) (simp_all add: addRegion_def)

lemma regions_list_loadRegions:
  "regions_list (loadRegions ps st) = regions_list st @ [fresh st ..< fresh st + length ps]"
proof (induction ps arbitrary: st)
  case Nil
  then show ?case by simp
next
  case (Cons p ps)
  have "[fresh st ..< fresh st + length (p # ps)] =
        fresh st # [Suc (fresh st) ..< Suc (fresh st) + length ps]"
    by (subst upt_rec) simp
  then show ?case by (simp add: Cons.IH addRegion_def)
qed

lemma heap_loadRegions:
  "heap (loadRegions ps st) i =
     (if fresh st \<le> i \<and> i < fresh st + length ps then region_of (ps ! (i - fresh st))
      else heap st i)"
proof (induction ps arbitrary: st i)
  case Nil
  then show ?case by auto
next
  case (Cons p ps)
  have a: "fresh (addRegion p st) = Suc (fresh st)"
    and h: "heap (addRegion p st) = (heap st)(fresh st := region_of p)"
    by (simp_all add: addRegion_def)
  show ?case
    by (auto simp: Cons.IH a h nth_Cons' Suc_diff_le)
qed

lemma map_heap_loadRegions:
  "map (heap (loadRegions ps st)) [fresh st ..< fresh st + length ps] = map region_of ps"
  by (rule nth_equalityI) (simp_all add: heap_loadRegions)

lemma selectedSegment_loadRegions: "selectedSegment (loadRegions ps st) = selectedSegment st"
  by (induction ps arbitrary: st) (simp_all add: addRegion_def)

text \<open>
  C4. Loading a list of \<open>N \<ge> 1\<close> segmentations into the engine, which has no region
  before, leaves exactly \<open>N\<close> regions on the list, pairwise different, the \<open>k\<close>-th
  one built from the \<open>k\<close>-th segmentation and carrying its \<open>segmentation_id\<close>; the
  \<open>ready\<close> handler then adds nothing and selects nothing.
\<close>

theorem hydrate_nonempty:
  assumes "regions_list st = []" and "segmentations d \<noteq> []"
  shows "(let st' = ready (componentDidMount_then ls d st) in
            length (regions_list st') = length (segmentations d)
          \<and> distinct (regions_list st')
          \<and> map (\<lambda>r. segmentation_id (data (heap st' r))) (regions_list st')
              = map segmentation_id (segmentations d)
          \<and> map (heap st') (regions_list st') = map (region_of \<circ> to_region) (segmentations d)
          \<and> st' = componentDidMount_then ls d st
          \<and> selectedSegment st' = selectedSegment st)"
proof -
  define st2 where "st2 = st\<lparr>isDataLoading := False, labels := ls, isDataLoading := False,
     referenceTranscription := reference_transcription d,
     isMarkedForReview := is_marked_for_review d\<rparr>"
  define ps where "ps = map to_region (segmentations d)"
  have cdm: "componentDidMount_then ls d st = loadRegions ps st2"
    by (simp add: componentDidMount_then_def Let_def st2_def ps_def)
  have f: "fresh st2 = fresh st" and l: "regions_list st2 = []"
    and s: "selectedSegment st2 = selectedSegment st"
    using assms by (simp_all add: st2_def)
  have rl: "regions_list (loadRegions ps st2) = [fresh st ..< fresh st + length ps]"
    by (simp add: regions_list_loadRegions f l)
  have ne: "ps \<noteq> []"
    using assms by (simp add: ps_def)
  have rdy: "ready (loadRegions ps st2) = loadRegions ps st2"
    using ne by (simp add: ready_def rl)
  have hp: "map (heap (loadRegions ps st2)) [fresh st ..< fresh st + length ps] = map region_of ps"
    using map_heap_loadRegions [of ps st2] by (simp add: f)
  have ids: "map (\<lambda>r. segmentation_id (data (heap (loadRegions ps st2) r)))
               [fresh st ..< fresh st + length ps]
           = map (\<lambda>p. segmentation_id (data (region_of p))) ps"
    using arg_cong [OF hp, of "map (\<lambda>x. segmentation_id (data x))"] by (simp add: comp_def)
  have ids2: "map (\<lambda>p. segmentation_id (data (region_of p))) ps =
              map segmentation_id (segmentations d)"
    by (simp add: ps_def region_of_def to_region_def comp_def)
  show ?thesis
    unfolding Let_def cdm rdy rl
    using hp ids ids2 by (simp add: ps_def selectedSegment_loadRegions s)
qed

theorem hydrate_nonempty_witness:
  "regions_list (init 10) = []
   \<and> (let st' = ready (componentDidMount_then labels0
            \<lparr>reference_transcription = None, is_marked_for_review = False,
             segmentations = [seg7, seg7\<lparr>segmentation_id := Num 8, start_time := 4, end_time := 6\<rparr>]\<rparr>
            (init 10)) in
          regions_list st' = [0, 1]
        \<and> segmentation_id (data (heap st' 0)) = Num 7
        \<and> segmentation_id (data (heap st' 1)) = Num 8
        \<and> selectedSegment st' = None)"
proof -
  let ?d = "\<lparr>reference_transcription = None, is_marked_for_review = False,
             segmentations = [seg7, seg7\<lparr>segmentation_id := Num 8, start_time := 4, end_time := 6\<rparr>]\<rparr>"
  have e: "regions_list (init 10) = []" and n: "segmentations ?d \<noteq> []"
    by (simp_all add: init_def)
  show ?thesis
    using hydrate_nonempty [OF e n, of labels0] e
    by (simp add: session_defs addRegion_def seg7_def Let_def)
qed

text \<open>
  C5. Loading an empty list of segmentations into the engine, which has no region
  before, and the \<open>ready\<close> event leave exactly one region on the list: it spans
  \<open>0\<close> to the audio's duration, has no \<open>segmentation_id\<close> (nor a transcription or
  annotations), and it is the selection.
\<close>

theorem hydrate_empty:
  assumes "regions_list st = []" and "segmentations d = []"
  shows "(let st' = ready (componentDidMount_then ls d st) in
            regions_list st' = [fresh st]
          \<and> heap st' (fresh st) = \<lparr>start = 0, end' = duration st, data = empty_data\<rparr>
          \<and> segmentation_id (data (heap st' (fresh st))) = Undefined
          \<and> selectedSegment st' = Some (fresh st))"
  using assms
  by (simp add: componentDidMount_then_def ready_def addRegion_def region_of_def Let_def
      empty_data_def)

theorem hydrate_empty_witness:
  "regions_list (init 10) = []
   \<and> (let st' = ready (componentDidMount_then labels0
            \<lparr>reference_transcription = None, is_marked_for_review = False, segmentations = []\<rparr>
            (init 10)) in
          regions_list st' = [0]
        \<and> heap st' 0 = \<lparr>start = 0, end' = 10, data = empty_data\<rparr>
        \<and> segmentation_id (data (heap st' 0)) = Undefined
        \<and> selectedSegment st' = Some 0)"
proof -
  let ?d = "\<lparr>reference_transcription = None, is_marked_for_review = False,
             segmentations = []\<rparr>"
  have e: "regions_list (init 10) = []" and n: "segmentations ?d = []"
    by (simp_all add: init_def)
  have f: "fresh (init 10) = 0" and u: "duration (init 10) = 10"
    by (simp_all add: init_def)
  show ?thesis
    using hydrate_empty [OF e n, of labels0] e by (simp add: f u Let_def empty_data_def)
qed

subsection \<open>Saving\<close>

lemma heap_settle_SaveUpdate: "heap (settle SaveUpdate resp st) = heap st"
  by (cases resp) (simp_all add: handleSegmentSave_update_then_def handleSegmentSave_catch_def)

text \<open>
  C1. When the selected region carries a \<open>segmentation_id\<close> (a number \<open>n\<close>),
  \<open>handleSegmentSave\<close> issues exactly one call, a \<open>PUT\<close> to the path of \<open>n\<close> with
  the region's times, transcription and annotations, and once that call is settled,
  whatever the response, the region still carries \<open>n\<close>; the callbacks of an update
  change no region, in whatever state they run.
\<close>

theorem save_update_keeps_id:
  assumes "selectedSegment st = Some r" and "segmentation_id (data (heap st r)) = Num n"
  shows "handleSegmentSave st =
           (st\<lparr>isSegmentSaving := True\<rparr>,
            Inr [(Put (Num n)
                   \<lparr>pl_start = start (heap st r), pl_end = end' (heap st r),
                    pl_transcription = transcription (data (heap st r)),
                    pl_annotations = annotations (data (heap st r))\<rparr>, SaveUpdate)])
         \<and> segmentation_id (data (heap (settle SaveUpdate resp (fst (handleSegmentSave st))) r)) = Num n
         \<and> (\<forall>st'. heap (settle SaveUpdate resp st') = heap st')"
  using assms by (simp add: handleSegmentSave_def Let_def heap_settle_SaveUpdate)

theorem save_update_keeps_id_witness:
  "selectedSegment synced7 = Some 0
   \<and> segmentation_id (data (heap synced7 0)) = Num 7
   \<and> snd (handleSegmentSave synced7) =
        Inr [(Put (Num 7) \<lparr>pl_start = 1, pl_end = 2, pl_transcription = Some ''hello'',
                           pl_annotations = None\<rparr>, SaveUpdate)]
   \<and> segmentation_id (data (heap (settle SaveUpdate
        (Resolved (Some \<lparr>res_segmentation_id = Num 99, res_is_marked_for_review = True\<rparr>))
        (fst (handleSegmentSave synced7))) 0)) = Num 7"
proof -
  have s: "selectedSegment synced7 = Some 0"
    and i: "segmentation_id (data (heap synced7 0)) = Num 7"
    by (simp_all add: synced7_fields)
  show ?thesis
    using save_update_keeps_id [OF s i,
        of "Resolved (Some \<lparr>res_segmentation_id = Num 99, res_is_marked_for_review = True\<rparr>)"]
    by (simp add: synced7_fields)
qed

text \<open>
  C8. When the call that \<open>handleSegmentSave\<close> issued for the selected region (a
  create or an update) is rejected, no region has changed: the selected region keeps
  its transcription, its annotations and its \<open>segmentation_id\<close> (none, for a
  create), it is still selected, the alert shows \<open>Error saving segment\<close>, and the
  success message is cleared. The callback of a rejected save changes no region and
  no selection in whatever state it runs.
\<close>

theorem save_rejected_keeps_edits:
  assumes "selectedSegment st = Some r" and "handleSegmentSave st = (st1, Inr [(req, k)])"
  shows "(let st2 = settle k Rejected st1 in
            heap st2 = heap st
          \<and> regions_list st2 = regions_list st
          \<and> selectedSegment st2 = Some r
          \<and> transcription (data (heap st2 r)) = transcription (data (heap st r))
          \<and> annotations (data (heap st2 r)) = annotations (data (heap st r))
          \<and> segmentation_id (data (heap st2 r)) = segmentation_id (data (heap st r))
          \<and> errorMessage st2 = Some ''Error saving segment''
          \<and> render_error_alert st2 = Some ''Error saving segment''
          \<and> successMessage st2 = None
          \<and> \<not> isSegmentSaving st2)
       \<and> (\<forall>st'. heap (settle k Rejected st') = heap st'
                \<and> selectedSegment (settle k Rejected st') = selectedSegment st')"
  using assms
  by (auto simp: handleSegmentSave_def handleSegmentSave_catch_def render_error_alert_def Let_def
      split: if_splits)

theorem save_rejected_keeps_edits_witness:
  "selectedSegment unsynced = Some 0
   \<and> handleSegmentSave (fst (handleTranscriptionChange (chose ''hi'' []) unsynced)) =
       ((fst (handleTranscriptionChange (chose ''hi'' []) unsynced))\<lparr>isSegmentSaving := True\<rparr>,
        Inr [(Post \<lparr>pl_start = 0, pl_end = 10, pl_transcription = Some ''hi'',
                    pl_annotations = None\<rparr>, SaveCreate 0)])
   \<and> (let st2 = settle (SaveCreate 0) Rejected
                   ((fst (handleTranscriptionChange (chose ''hi'' []) unsynced))
                      \<lparr>isSegmentSaving := True\<rparr>) in
        transcription (data (heap st2 0)) = Some ''hi''
      \<and> segmentation_id (data (heap st2 0)) = Undefined
      \<and> selectedSegment st2 = Some 0
      \<and> render_error_alert st2 = Some ''Error saving segment'')
   \<and> handleSegmentSave synced7 =
       (synced7\<lparr>isSegmentSaving := True\<rparr>,
        Inr [(Put (Num 7) \<lparr>pl_start = 1, pl_end = 2, pl_transcription = Some ''hello'',
                           pl_annotations = None\<rparr>, SaveUpdate)])
   \<and> (let st2 = settle SaveUpdate Rejected (synced7\<lparr>isSegmentSaving := True\<rparr>) in
        transcription (data (heap st2 0)) = Some ''hello''
      \<and> segmentation_id (data (heap st2 0)) = Num 7
      \<and> selectedSegment st2 = Some 0
      \<and> render_error_alert st2 = Some ''Error saving segment'')"
proof -
  define st where "st = fst (handleTranscriptionChange (chose ''hi'' []) unsynced)"
  have s: "selectedSegment st = Some 0"
    and h: "heap st 0 =
      \<lparr>start = 0, end' = 10,
       data = \<lparr>segmentation_id = Undefined, transcription = Some ''hi'', annotations = None\<rparr>\<rparr>"
    by (simp_all add: st_def handleTranscriptionChange_def set_data_def unsynced_fields chose_def)
  have c: "handleSegmentSave st =
       (st\<lparr>isSegmentSaving := True\<rparr>,
        Inr [(Post \<lparr>pl_start = 0, pl_end = 10, pl_transcription = Some ''hi'',
                    pl_annotations = None\<rparr>, SaveCreate 0)])"
    by (simp add: handleSegmentSave_def Let_def s h)
  have s7: "selectedSegment synced7 = Some 0"
    by (simp add: synced7_fields)
  have c7: "handleSegmentSave synced7 =
       (synced7\<lparr>isSegmentSaving := True\<rparr>,
        Inr [(Put (Num 7) \<lparr>pl_start = 1, pl_end = 2, pl_transcription = Some ''hello'',
                           pl_annotations = None\<rparr>, SaveUpdate)])"
    by (simp add: handleSegmentSave_def Let_def synced7_fields)
  show ?thesis
    using save_rejected_keeps_edits [OF s c] save_rejected_keeps_edits [OF s7 c7] s c h c7
    by (simp add: st_def [symmetric] unsynced_fields synced7_fields Let_def)
qed

subsection \<open>The identifier of a region changes only when its create resolves\<close>

lemma fresh_react: "fresh st \<le> fresh (react ev st)"
proof (cases ev)
  case (Settled k resp)
  then show ?thesis
    by (cases k; cases resp)
      (simp_all add: handleSegmentSave_catch_def handleSegmentSave_create_then_def
        handleSegmentSave_update_then_def handleSegmentDelete_catch_def
        handleSegmentDelete_then_def handleIsMarkedForReview_then_def
        handleIsMarkedForReview_catch_def set_data_def remove_def split: option.splits)
qed (simp_all add: componentDidMount_then_def componentDidMount_catch_def ready_def
      region_click_def handleTranscriptionChange_def handleLabelChange_def
      handleSegmentSave_def handleSegmentDelete_def handleIsMarkedForReview_def
      handleAlertDismiss_def fresh_loadRegions addRegion_def set_data_def remove_def Let_def
      split: option.splits)

lemma id_react:
  assumes "r < fresh st" and "\<not> create_resolved r ev"
  shows "segmentation_id (data (heap (react ev st) r)) = segmentation_id (data (heap st r))"
proof (cases ev)
  case (Settled k resp)
  with assms show ?thesis
    by (cases k; cases resp)
      (auto simp: handleSegmentSave_catch_def handleSegmentSave_create_then_def
        handleSegmentSave_update_then_def handleSegmentDelete_catch_def
        handleSegmentDelete_then_def handleIsMarkedForReview_then_def
        handleIsMarkedForReview_catch_def set_data_def remove_def split: option.splits)
next
  case (Loaded ls d)
  with assms show ?thesis
    by (simp add: componentDidMount_then_def heap_loadRegions Let_def)
qed (use assms in \<open>auto simp: componentDidMount_catch_def ready_def
      region_click_def handleTranscriptionChange_def handleLabelChange_def
      handleSegmentSave_def handleSegmentDelete_def handleIsMarkedForReview_def
      handleAlertDismiss_def addRegion_def set_data_def remove_def Let_def
      split: option.splits\<close>)

lemma id_run:
  assumes "r < fresh st" and "\<forall>ev \<in> set evs. \<not> create_resolved r ev"
  shows "segmentation_id (data (heap (run evs st) r)) = segmentation_id (data (heap st r))"
  using assms
proof (induction evs arbitrary: st)
  case Nil
  then show ?case by (simp add: run_def)
next
  case (Cons ev evs)
  have "r < fresh (react ev st)"
    using Cons.prems(1) fresh_react [of st ev] by simp
  then have "segmentation_id (data (heap (run evs (react ev st)) r)) =
             segmentation_id (data (heap (react ev st) r))"
    using Cons.IH Cons.prems(2) by simp
  then show ?case
    using id_react [of r st ev] Cons.prems by (simp add: run_def)
qed

text \<open>
  C2. A region that the engine adds for a drawn range has no \<open>segmentation_id\<close>, and
  it has none after any events of the session among which no create for this region
  resolves. Saving it while it is selected and has none issues exactly one call, a
  \<open>POST\<close> with its times, transcription and annotations; when that create resolves,
  the \<open>segmentation_id\<close> of the response is written into the region.
\<close>

theorem drawn_region_unsynced_until_create:
  assumes "st1 = addRegion \<lparr>prm_start = s, prm_end = e, prm_data = None\<rparr> st"
    and "r = fresh st"
  shows "r \<in> set (regions_list st1)
       \<and> segmentation_id (data (heap st1 r)) = Undefined
       \<and> ((\<forall>ev \<in> set evs. \<not> create_resolved r ev) \<longrightarrow>
            segmentation_id (data (heap (run evs st1) r)) = Undefined)
       \<and> (selectedSegment st2 = Some r \<and> segmentation_id (data (heap st2 r)) = Undefined \<longrightarrow>
            handleSegmentSave st2 =
              (st2\<lparr>isSegmentSaving := True\<rparr>,
               Inr [(Post \<lparr>pl_start = start (heap st2 r), pl_end = end' (heap st2 r),
                           pl_transcription = transcription (data (heap st2 r)),
                           pl_annotations = annotations (data (heap st2 r))\<rparr>, SaveCreate r)]))
       \<and> segmentation_id (data (heap (settle (SaveCreate r) (Resolved (Some d)) st3) r)) =
            res_segmentation_id d"
proof -
  have a: "segmentation_id (data (heap st1 r)) = Undefined" and f: "r < fresh st1"
    and m: "r \<in> set (regions_list st1)"
    using assms by (simp_all add: addRegion_def region_of_def empty_data_def)
  have b: "(\<forall>ev \<in> set evs. \<not> create_resolved r ev) \<longrightarrow>
            segmentation_id (data (heap (run evs st1) r)) = Undefined"
    using id_run [OF f, of evs] a by simp
  have c: "selectedSegment st2 = Some r \<and> segmentation_id (data (heap st2 r)) = Undefined \<longrightarrow>
            handleSegmentSave st2 =
              (st2\<lparr>isSegmentSaving := True\<rparr>,
               Inr [(Post \<lparr>pl_start = start (heap st2 r), pl_end = end' (heap st2 r),
                           pl_transcription = transcription (data (heap st2 r)),
                           pl_annotations = annotations (data (heap st2 r))\<rparr>, SaveCreate r)])"
    by (simp add: handleSegmentSave_def Let_def)
  have d: "segmentation_id (data (heap (settle (SaveCreate r) (Resolved (Some d)) st3) r)) =
            res_segmentation_id d"
    by (simp add: handleSegmentSave_create_then_def set_data_def)
  from a b c d m show ?thesis by blast
qed

theorem drawn_region_unsynced_until_create_witness:
  "fresh unsynced = 1
   \<and> (let st2 = run draw_and_retry
                   (addRegion \<lparr>prm_start = 3, prm_end = 5, prm_data = None\<rparr> unsynced) in
        segmentation_id (data (heap st2 1)) = Undefined
      \<and> selectedSegment st2 = Some 1
      \<and> errorMessage st2 = Some ''Error saving segment''
      \<and> snd (handleSegmentSave st2) =
          Inr [(Post \<lparr>pl_start = 3, pl_end = 5, pl_transcription = Some ''hi'',
                      pl_annotations = None\<rparr>, SaveCreate 1)]
      \<and> segmentation_id (data (heap (settle (SaveCreate 1)
            (Resolved (Some \<lparr>res_segmentation_id = Num 42, res_is_marked_for_review = False\<rparr>))
            (fst (handleSegmentSave st2))) 1)) = Num 42)"
proof -
  define st1 where "st1 = addRegion \<lparr>prm_start = 3, prm_end = 5, prm_data = None\<rparr> unsynced"
  define st2 where "st2 = run draw_and_retry st1"
  have r: "(1::nat) = fresh unsynced"
    by (simp add: unsynced_fields)
  have quiet: "\<forall>ev \<in> set draw_and_retry. \<not> create_resolved 1 ev"
    by (simp add: draw_and_retry_def)
  have h1: "heap st1 (Suc 0) = \<lparr>start = 3, end' = 5, data = empty_data\<rparr>"
    by (simp add: st1_def addRegion_def region_of_def unsynced_fields)
  have sel: "selectedSegment st2 = Some 1"
    and err: "errorMessage st2 = Some ''Error saving segment''"
    and h2: "heap st2 (Suc 0) = \<lparr>start = 3, end' = 5,
        data = \<lparr>segmentation_id = Undefined, transcription = Some ''hi'', annotations = None\<rparr>\<rparr>"
    by (simp_all add: st2_def draw_and_retry_def run_def region_click_def chose_def
        handleTranscriptionChange_def handleSegmentSave_def handleSegmentSave_catch_def
        set_data_def h1 empty_data_def Let_def)
  have undef: "segmentation_id (data (heap st2 1)) = Undefined"
    by (simp add: h2)
  show ?thesis
    using drawn_region_unsynced_until_create [OF st1_def r, of draw_and_retry st2
        "\<lparr>res_segmentation_id = Num 42, res_is_marked_for_review = False\<rparr>"
        "fst (handleSegmentSave st2)"]
      quiet sel err undef
    by (auto simp: st2_def [symmetric] st1_def [symmetric] unsynced_fields h2 Let_def)
qed

subsection \<open>Deleting\<close>

text \<open>
  C3. Let the selected region be on the engine's list. If it carries a
  \<open>segmentation_id\<close> (a number \<open>n\<close> other than \<open>0\<close>; the identifiers of the backend
  are positive), \<open>handleSegmentDelete\<close> only issues a \<open>DELETE\<close> to the path of \<open>n\<close>: the region
  stays on the list and selected; when the call is rejected the list, the regions and
  the selection are as before; when it resolves the region is off the list and nothing
  is selected. If the region carries no \<open>segmentation_id\<close>, the handler issues no
  call, does not throw, takes the region off the list and clears the selection at
  once.
\<close>

theorem delete_synced_and_unsynced:
  assumes "selectedSegment st = Some r" and "r \<in> set (regions_list st)"
  shows "(segmentation_id (data (heap st r)) = Num n \<and> n \<noteq> 0 \<longrightarrow>
            handleSegmentDelete st =
              (st\<lparr>isSegmentDeleting := True\<rparr>, Inr [(Delete (Num n), SegmentDelete r)])
          \<and> (let st2 = settle (SegmentDelete r) Rejected (fst (handleSegmentDelete st)) in
               regions_list st2 = regions_list st \<and> r \<in> set (regions_list st2)
             \<and> selectedSegment st2 = Some r \<and> heap st2 = heap st)
          \<and> (let st2 = settle (SegmentDelete r) (Resolved d) (fst (handleSegmentDelete st)) in
               regions_list st2 = removeAll r (regions_list st) \<and> r \<notin> set (regions_list st2)
             \<and> selectedSegment st2 = None))
       \<and> (segmentation_id (data (heap st r)) = Undefined
            \<or> segmentation_id (data (heap st r)) = Null \<longrightarrow>
            snd (handleSegmentDelete st) = Inr []
          \<and> regions_list (fst (handleSegmentDelete st)) = removeAll r (regions_list st)
          \<and> r \<notin> set (regions_list (fst (handleSegmentDelete st)))
          \<and> selectedSegment (fst (handleSegmentDelete st)) = None)"
  using assms
  by (auto simp: handleSegmentDelete_def handleSegmentDelete_then_def handleSegmentDelete_catch_def
      remove_def Let_def)

theorem delete_synced_and_unsynced_witness:
  "selectedSegment synced7 = Some 0 \<and> 0 \<in> set (regions_list synced7)
   \<and> segmentation_id (data (heap synced7 0)) = Num 7 \<and> (7::int) \<noteq> 0
   \<and> snd (handleSegmentDelete synced7) = Inr [(Delete (Num 7), SegmentDelete 0)]
   \<and> regions_list (fst (handleSegmentDelete synced7)) = [0]
   \<and> regions_list (settle (SegmentDelete 0) Rejected (fst (handleSegmentDelete synced7))) = [0]
   \<and> selectedSegment (settle (SegmentDelete 0) Rejected (fst (handleSegmentDelete synced7))) = Some 0
   \<and> regions_list (settle (SegmentDelete 0) (Resolved None) (fst (handleSegmentDelete synced7))) = []
   \<and> selectedSegment (settle (SegmentDelete 0) (Resolved None) (fst (handleSegmentDelete synced7)))
       = None
   \<and> selectedSegment unsynced = Some 0 \<and> 0 \<in> set (regions_list unsynced)
   \<and> segmentation_id (data (heap unsynced 0)) = Undefined
   \<and> snd (handleSegmentDelete unsynced) = Inr []
   \<and> regions_list (fst (handleSegmentDelete unsynced)) = []
   \<and> selectedSegment (fst (handleSegmentDelete unsynced)) = None"
proof -
  have s: "selectedSegment synced7 = Some 0" and m: "0 \<in> set (regions_list synced7)"
    and u: "selectedSegment unsynced = Some 0" and v: "0 \<in> set (regions_list unsynced)"
    by (simp_all add: synced7_fields unsynced_fields)
  show ?thesis
    using delete_synced_and_unsynced [OF s m, of 7 None]
      delete_synced_and_unsynced [OF u v, of 0 None]
    by (auto simp: synced7_fields unsynced_fields Let_def)
qed

text \<open>
  The test of the handler is the truth value of the identifier, so a region whose
  \<open>segmentation_id\<close> were the number \<open>0\<close> would be removed without a call; the
  backend assigns positive identifiers only.
\<close>

lemma delete_id_zero_is_local:
  assumes "selectedSegment st = Some r" and "r \<in> set (regions_list st)"
    and "segmentation_id (data (heap st r)) = Num 0"
  shows "snd (handleSegmentDelete st) = Inr []"
  using assms by (simp add: handleSegmentDelete_def Let_def)

subsection \<open>Editing\<close>

lemma handleLabelChange_entry:
  assumes "selectedSegment st = Some r" and "labels st key = Some l"
  shows "snd (handleLabelChange key e st) = Inr []"
    and "selectedSegment (fst (handleLabelChange key e st)) = Some r"
    and "labels (fst (handleLabelChange key e st)) = labels st"
    and "annotation_of (fst (handleLabelChange key e st)) r key =
           Some (if lbl_type l = ''multiselect''
                 then \<lparr>ann_label_id = lbl_label_id l, ann_values = Multi (target_selectedOptions e)\<rparr>
                 else \<lparr>ann_label_id = lbl_label_id l, ann_values = Single (target_value e)\<rparr>)"
  using assms by (simp_all add: handleLabelChange_def set_data_def annotation_of_def Let_def)

text \<open>
  C6. For a \<open>multiselect\<close> label, after two changes of the label's select on the
  selected region the region's entry for the label holds exactly the options selected
  at the second change, whatever the first change selected: after \<open>{2,5}\<close> and
  then \<open>{5}\<close> it holds \<open>{5}\<close>.
\<close>

theorem multiselect_replaces:
  assumes "selectedSegment st = Some r" and "labels st key = Some l"
    and "lbl_type l = ''multiselect''"
  shows "annotation_of (fst (handleLabelChange key e2 (fst (handleLabelChange key e1 st)))) r key =
           Some \<lparr>ann_label_id = lbl_label_id l, ann_values = Multi (target_selectedOptions e2)\<rparr>"
proof -
  let ?st1 = "fst (handleLabelChange key e1 st)"
  have s: "selectedSegment ?st1 = Some r" and l: "labels ?st1 key = Some l"
    using assms by (simp_all add: handleLabelChange_entry)
  show ?thesis
    using handleLabelChange_entry(4) [OF s l, of e2] assms(3) by simp
qed

theorem multiselect_replaces_witness:
  "selectedSegment synced7 = Some 0
   \<and> labels synced7 ''tags'' = Some \<lparr>lbl_label_id = 2, lbl_type = ''multiselect'',
                       lbl_values = [(''2'', ''noise''), (''5'', ''music'')]\<rparr>
   \<and> annotation_of (fst (handleLabelChange ''tags'' (chose ''5'' [''5''])
                      (fst (handleLabelChange ''tags'' (chose ''2'' [''2'', ''5'']) synced7))))
         0 ''tags'' =
        Some \<lparr>ann_label_id = 2, ann_values = Multi [''5'']\<rparr>"
proof -
  have s: "selectedSegment synced7 = Some 0"
    and l: "labels synced7 ''tags'' = Some \<lparr>lbl_label_id = 2, lbl_type = ''multiselect'',
                       lbl_values = [(''2'', ''noise''), (''5'', ''music'')]\<rparr>"
    by (simp_all add: synced7_fields labels0_def)
  show ?thesis
    using multiselect_replaces [OF s l, of "chose ''5'' [''5'']" "chose ''2'' [''2'', ''5'']"] s l
    by (simp add: chose_def)
qed

text \<open>
  C10. For a label that is not \<open>multiselect\<close>, a change of the label's select on the
  selected region stores the select's value as it is in the region's entry for the
  label. The select is rendered when the label has a value, and then its first option
  is the placeholder with the value \<open>"-1"\<close>, followed by the label's values; a change
  that reports \<open>"-1"\<close> leaves an entry with the value \<open>"-1"\<close>, not a region without
  an entry.
\<close>

theorem single_choice_verbatim:
  assumes "selectedSegment st = Some r" and "labels st key = Some l"
    and "lbl_type l \<noteq> ''multiselect''"
  shows "annotation_of (fst (handleLabelChange key e st)) r key =
           Some \<lparr>ann_label_id = lbl_label_id l, ann_values = Single (target_value e)\<rparr>
       \<and> render_options l =
           (if lbl_values l = [] then None else Some (''-1'' # map fst (lbl_values l)))
       \<and> annotation_of (fst (handleLabelChange key (e\<lparr>target_value := ''-1''\<rparr>) st)) r key =
           Some \<lparr>ann_label_id = lbl_label_id l, ann_values = Single ''-1''\<rparr>"
  using assms by (simp add: handleLabelChange_entry render_options_def)

theorem single_choice_verbatim_witness:
  "selectedSegment synced7 = Some 0
   \<and> labels synced7 ''mood'' = Some \<lparr>lbl_label_id = 1, lbl_type = ''select'',
                       lbl_values = [(''3'', ''calm''), (''4'', ''tense'')]\<rparr>
   \<and> ''select'' \<noteq> ''multiselect''
   \<and> render_options \<lparr>lbl_label_id = 1, lbl_type = ''select'',
                       lbl_values = [(''3'', ''calm''), (''4'', ''tense'')]\<rparr>
       = Some [''-1'', ''3'', ''4'']
   \<and> annotation_of (fst (handleLabelChange ''mood'' (chose ''-1'' [])
                      (fst (handleLabelChange ''mood'' (chose ''3'' []) synced7)))) 0 ''mood'' =
        Some \<lparr>ann_label_id = 1, ann_values = Single ''-1''\<rparr>"
proof -
  let ?l = "\<lparr>lbl_label_id = 1, lbl_type = ''select'',
            lbl_values = [(''3'', ''calm''), (''4'', ''tense'')]\<rparr>"
  let ?st1 = "fst (handleLabelChange ''mood'' (chose ''3'' []) synced7)"
  have s: "selectedSegment synced7 = Some 0" and l: "labels synced7 ''mood'' = Some ?l"
    by (simp_all add: synced7_fields labels0_def)
  have s1: "selectedSegment ?st1 = Some 0" and l1: "labels ?st1 ''mood'' = Some ?l"
    using s l by (simp_all add: handleLabelChange_entry)
  have t: "lbl_type ?l \<noteq> ''multiselect''"
    by simp
  show ?thesis
    using single_choice_verbatim [OF s1 l1 t, of "chose ''-1'' []"] s l
    by (simp add: chose_def render_options_def)
qed

text \<open>
  The spec's claim C7 says that \<open>updateTranscription\<close> with nothing selected does not
  fail. In the first state of the component nothing is selected, and there
  \<open>handleTranscriptionChange\<close> throws.
\<close>

theorem edit_without_selection_counterexample:
  "snd (handleTranscriptionChange (chose ''hi'' []) (init 10)) = Inl TypeError"
  by (simp add: handleTranscriptionChange_def init_def)

text \<open>
  C7, as the code has it. With nothing selected, \<open>handleTranscriptionChange\<close> and
  \<open>handleLabelChange\<close> leave the whole state as it is and throw a \<open>TypeError\<close>; in
  such a state \<open>render\<close> shows no edit control, so no event reaches them.
\<close>

theorem edit_without_selection:
  assumes "selectedSegment st = None"
  shows "handleTranscriptionChange e st = (st, Inl TypeError)
       \<and> handleLabelChange key e st = (st, Inl TypeError)
       \<and> \<not> render_edit_controls st"
  using assms
  by (simp add: handleTranscriptionChange_def handleLabelChange_def render_edit_controls_def)

theorem edit_without_selection_witness:
  "selectedSegment (init 10) = None
   \<and> handleTranscriptionChange (chose ''hi'' []) (init 10) = (init 10, Inl TypeError)
   \<and> handleLabelChange ''mood'' (chose ''3'' []) (init 10) = (init 10, Inl TypeError)
   \<and> \<not> render_edit_controls (init 10)"
proof -
  have n: "selectedSegment (init 10) = None"
    by (simp add: init_def)
  show ?thesis
    using edit_without_selection [OF n, of "chose ''hi'' []"]
      edit_without_selection [OF n, of "chose ''3'' []" "''mood''"] n
    by simp
qed

subsection \<open>The review flag\<close>

text \<open>
  The spec's claim C9 says that after a failed toggle the checkbox shows what the user
  set. From the first state, where the flag is false, the user ticks the box and the
  call is rejected: the checkbox shows false.
\<close>

theorem review_failure_counterexample:
  "render_isMarkedForReview (settle MarkedForReview Rejected
      (fst (handleIsMarkedForReview (ticked True) (init 10)))) = Some False
   \<and> target_checked (ticked True) = True"
  by (simp add: handleIsMarkedForReview_def handleIsMarkedForReview_catch_def
      render_isMarkedForReview_def init_def ticked_def Let_def)

text \<open>
  C9, as the code has it. A toggle of the review checkbox issues one \<open>PATCH\<close> with the
  value the user set. When it resolves, the checkbox shows the value of the response;
  when it is rejected, the error \<open>Error changing review status\<close> is set and the
  checkbox shows the flag of the state before the toggle, whatever the user set.
\<close>

theorem review_flag_shows_confirmed_value:
  "snd (handleIsMarkedForReview e st) = Inr [(Patch (target_checked e), MarkedForReview)]
   \<and> render_isMarkedForReview (settle MarkedForReview (Resolved (Some d))
        (fst (handleIsMarkedForReview e st))) = Some (res_is_marked_for_review d)
   \<and> render_isMarkedForReview (settle MarkedForReview Rejected
        (fst (handleIsMarkedForReview e st))) = Some (isMarkedForReview st)
   \<and> errorMessage (settle MarkedForReview Rejected
        (fst (handleIsMarkedForReview e st))) = Some ''Error changing review status''"
  by (simp add: handleIsMarkedForReview_def handleIsMarkedForReview_catch_def
      handleIsMarkedForReview_then_def render_isMarkedForReview_def Let_def)

end
